theory Spec2Isabelle
  imports Main "HOL-Library.AList"
begin

unbundle bit_operations_syntax

section \<open>Strings, bytes and errors\<close>

text \<open>
  A Go \<^verbatim>\<open>string\<close> is a sequence of bytes: \<^typ>\<open>string\<close>.  An \<^verbatim>\<open>error\<close> built with
  \<^verbatim>\<open>errors.New\<close> is its message; a \<^verbatim>\<open>*strconv.NumError\<close> keeps the text it was
  given and which of \<^verbatim>\<open>ErrSyntax\<close>/\<^verbatim>\<open>ErrRange\<close> it wraps; a run-time panic (a failed
  index, an explicit \<^verbatim>\<open>panic\<close>) ends the call and is kept apart from returned errors.
\<close>

datatype strconv_err = ErrSyntax | ErrRange

datatype failure =
    Error string
  | NumError string strconv_err
  | Panic string

definition qt :: char where
  "qt = CHR 0x22"

definition lf :: char where
  "lf = CHR 0x0A"

definition backslash :: char where
  "backslash = CHR 0x5C"

definition byte :: "char \<Rightarrow> nat" where
  "byte c = of_char c"

definition isUpper :: "char \<Rightarrow> bool" where
  "isUpper c = (byte (CHR ''A'') \<le> byte c \<and> byte c \<le> byte (CHR ''Z''))"

definition isLower :: "char \<Rightarrow> bool" where
  "isLower c = (byte (CHR ''a'') \<le> byte c \<and> byte c \<le> byte (CHR ''z''))"

definition isNumber :: "char \<Rightarrow> bool" where
  "isNumber c = (byte (CHR ''0'') \<le> byte c \<and> byte c \<le> byte (CHR ''9''))"

definition lower :: "char \<Rightarrow> char" where
  "lower r = (if isUpper r then char_of (byte r + 32) else r)"

definition toLower :: "string \<Rightarrow> string" where
  "toLower s = map lower s"

text \<open>\<^verbatim>\<open>strings.Replace(s, ",", "", -1)\<close>: every comma is dropped.\<close>

definition remove_commas :: "string \<Rightarrow> string" where
  "remove_commas s = filter (\<lambda>c. c \<noteq> CHR '','') s"

text \<open>The decimal text of a number, as \<^verbatim>\<open>%d\<close> and \<^verbatim>\<open>%v\<close> print an integer.\<close>

definition digit_char :: "nat \<Rightarrow> char" where
  "digit_char d =
     (if d = 0 then CHR ''0'' else if d = 1 then CHR ''1'' else if d = 2 then CHR ''2''
      else if d = 3 then CHR ''3'' else if d = 4 then CHR ''4'' else if d = 5 then CHR ''5''
      else if d = 6 then CHR ''6'' else if d = 7 then CHR ''7'' else if d = 8 then CHR ''8''
      else CHR ''9'')"

fun itoa_nat :: "nat \<Rightarrow> string" where
  "itoa_nat n = (if n < 10 then [digit_char n] else itoa_nat (n div 10) @ [digit_char (n mod 10)])"

definition itoa :: "int \<Rightarrow> string" where
  "itoa i = (if i < 0 then CHR ''-'' # itoa_nat (nat (- i)) else itoa_nat (nat i))"

section \<open>Value coercion: integers\<close>

subsection \<open>The library's integer parsers\<close>

text \<open>
  \<^verbatim>\<open>strconv.ParseUint(s, 10, 64)\<close> reads the digits from the left; the first byte that is no
  digit is a syntax error, a value that leaves 64 bits is a range error, whichever comes
  first.  \<^verbatim>\<open>strconv.ParseInt(s, 10, 64)\<close> takes one optional sign and checks the signed
  range.  \<^verbatim>\<open>strconv.Atoi\<close> is \<^verbatim>\<open>ParseInt(s, 10, 0)\<close> with a 64-bit \<^verbatim>\<open>int\<close>.
\<close>

fun ParseUint_loop :: "nat \<Rightarrow> string \<Rightarrow> strconv_err + nat" where
  "ParseUint_loop n [] = Inr n"
| "ParseUint_loop n (c # cs) =
     (if \<not> isNumber c then Inl ErrSyntax
      else if n \<ge> (2 ^ 64 - 1) div 10 + 1 then Inl ErrRange
      else let n1 = n * 10 + (byte c - byte (CHR ''0''))
           in if n1 > 2 ^ 64 - 1 then Inl ErrRange else ParseUint_loop n1 cs)"

definition ParseUint :: "string \<Rightarrow> failure + nat" where
  "ParseUint s =
     (if s = [] then Inl (NumError s ErrSyntax)
      else case ParseUint_loop 0 s of
             Inl e \<Rightarrow> Inl (NumError s e)
           | Inr n \<Rightarrow> Inr n)"

definition ParseInt :: "string \<Rightarrow> failure + int" where
  "ParseInt s0 =
     (if s0 = [] then Inl (NumError s0 ErrSyntax)
      else let neg = (hd s0 = CHR ''-'');
               s = (if hd s0 = CHR ''+'' \<or> hd s0 = CHR ''-'' then tl s0 else s0)
           in if s = [] then Inl (NumError s0 ErrSyntax)
              else case ParseUint_loop 0 s of
                     Inl ErrSyntax \<Rightarrow> Inl (NumError s0 ErrSyntax)
                   | Inl ErrRange \<Rightarrow> Inl (NumError s0 ErrRange)
                   | Inr un \<Rightarrow>
                       if \<not> neg \<and> un \<ge> 2 ^ 63 then Inl (NumError s0 ErrRange)
                       else if neg \<and> un > 2 ^ 63 then Inl (NumError s0 ErrRange)
                       else Inr (if neg then - int un else int un))"

definition Atoi :: "string \<Rightarrow> failure + int" where
  "Atoi s = ParseInt s"

subsection \<open>Destination kinds\<close>

datatype kind =
    Int8 | Int16 | Int32 | Int64 | Int
  | Uint8 | Uint16 | Uint32 | Uint64 | Uint
  | Float32 | Float64
  | String | Bool
  | TimeStruct
  | Other string

definition bitSize :: "kind \<Rightarrow> nat" where
  "bitSize k =
     (if k = Int8 \<or> k = Uint8 then 8
      else if k = Int16 \<or> k = Uint16 then 16
      else if k = Int32 \<or> k = Uint32 \<or> k = Float32 then 32
      else 64)"

text \<open>
  \<^verbatim>\<open>reflect.Value.OverflowInt(x)\<close> and \<^verbatim>\<open>OverflowUint(x)\<close>: whether the 64-bit \<^verbatim>\<open>x\<close> is
  changed by truncation to the destination's width.  \<^verbatim>\<open>uint64(v)\<close> of a signed \<^verbatim>\<open>v\<close> is
  \<^verbatim>\<open>v\<close> modulo \<open>2 ^ 64\<close>.
\<close>

definition OverflowInt :: "kind \<Rightarrow> int \<Rightarrow> bool" where
  "OverflowInt k x = (x < - (2 ^ (bitSize k - 1)) \<or> 2 ^ (bitSize k - 1) \<le> x)"

definition OverflowUint :: "kind \<Rightarrow> int \<Rightarrow> bool" where
  "OverflowUint k x = (2 ^ bitSize k \<le> x)"

definition uint64 :: "int \<Rightarrow> int" where
  "uint64 v = v mod 2 ^ 64"

subsection \<open>iFix and the integer setters\<close>

text \<open>
  \<^verbatim>\<open>iFix\<close>: a string shorter than two bytes is returned as it is.  Otherwise the commas go,
  and the byte at the last index decides.  When nothing is left after the commas, that
  index is \<open>-1\<close> and the read \<^verbatim>\<open>s[n]\<close> panics.
\<close>

definition iFix :: "string \<Rightarrow> failure + string" where
  "iFix s0 =
     (if length s0 < 2 then Inr s0
      else let s = remove_commas s0;
               n = int (length s) - 1
           in if n < 0 then Inl (Panic ''index out of range'')
              else let c = s ! nat n; p = take (nat n) s
                   in if c = CHR ''K'' then Inr (p @ ''000'')
                      else if c = CHR ''M'' then Inr (p @ ''000000'')
                      else if c = CHR ''G'' then Inr (p @ ''000000000'')
                      else if c = CHR ''T'' then Inr (p @ ''000000000000'')
                      else if c = CHR ''P'' then Inr (p @ ''000000000000000'')
                      else if c = CHR ''E'' then Inr (p @ ''000000000000000000'')
                      else Inr s)"

text \<open>
  The setters return the error, or the value that \<^verbatim>\<open>SetInt\<close>/\<^verbatim>\<open>SetUint\<close> stored in the
  destination; on an error the destination is left as it was.
\<close>

definition set_int :: "kind \<Rightarrow> string \<Rightarrow> failure + int" where
  "set_int k val =
     (case iFix val of
        Inl e \<Rightarrow> Inl e
      | Inr val' \<Rightarrow>
          (case Atoi val' of
             Inl e \<Rightarrow> Inl e
           | Inr v \<Rightarrow> if OverflowInt k v then Inl (Error ''Overflow'') else Inr v))"

definition set_int64 :: "string \<Rightarrow> failure + int" where
  "set_int64 val = (case iFix val of Inl e \<Rightarrow> Inl e | Inr val' \<Rightarrow> ParseInt val')"

definition set_uint :: "kind \<Rightarrow> string \<Rightarrow> failure + int" where
  "set_uint k val =
     (case iFix val of
        Inl e \<Rightarrow> Inl e
      | Inr val' \<Rightarrow>
          (case Atoi val' of
             Inl e \<Rightarrow> Inl e
           | Inr v \<Rightarrow> if OverflowUint k (uint64 v) then Inl (Error ''Overflow'')
                      else Inr (uint64 v)))"

definition set_uint64 :: "string \<Rightarrow> failure + int" where
  "set_uint64 val =
     (case iFix val of
        Inl e \<Rightarrow> Inl e
      | Inr val' \<Rightarrow> (case ParseUint val' of Inl e \<Rightarrow> Inl e | Inr n \<Rightarrow> Inr (int n)))"

text \<open>
  The rule as the specification words it: commas stripped, then a final magnitude letter
  replaced by its zeros, for every string.
\<close>

definition magnitude_zeros :: "char \<Rightarrow> nat" where
  "magnitude_zeros c =
     (if c = CHR ''K'' then 3 else if c = CHR ''M'' then 6 else if c = CHR ''G'' then 9
      else if c = CHR ''T'' then 12 else if c = CHR ''P'' then 15 else 18)"

definition zero_pad_spec :: "string \<Rightarrow> string" where
  "zero_pad_spec s0 =
     (let s = remove_commas s0
      in if s \<noteq> [] \<and> last s \<in> set ''KMGTPE''
         then butlast s @ replicate (magnitude_zeros (last s)) (CHR ''0'')
         else s)"


section \<open>Value coercion: floats, booleans, times\<close>

subsection \<open>Floats\<close>

text \<open>
  Floating-point numbers are kept abstract: \<open>'f\<close> is the type \<^verbatim>\<open>float64\<close>, and the three
  things \<^verbatim>\<open>floatFix\<close> does with it are taken as given: \<^verbatim>\<open>strconv.ParseFloat(s, b)\<close>, the
  product of two \<^verbatim>\<open>float64\<close> values, and the \<^verbatim>\<open>float64\<close> value of an integer constant
  (\<open>0\<close> and the powers of ten up to \<open>10 ^ 18\<close> are all exact in \<^verbatim>\<open>float64\<close>).
\<close>

record 'f float_lib =
  ParseFloat :: "string \<Rightarrow> nat \<Rightarrow> failure + 'f"
  fmul :: "'f \<Rightarrow> 'f \<Rightarrow> 'f"
  fconst :: "int \<Rightarrow> 'f"

definition floatFix :: "'f float_lib \<Rightarrow> string \<Rightarrow> nat \<Rightarrow> failure + 'f" where
  "floatFix L s0 b =
     (if length s0 = 0 then Inr (fconst L 0)
      else if length s0 = 1 then ParseFloat L s0 b
      else let s = remove_commas s0;
               n = int (length s) - 1
           in if n < 0 then Inl (Panic ''index out of range'')
              else let c = s ! nat n
                   in if isNumber c then ParseFloat L s b
                      else (case ParseFloat L (take (nat n) s) b of
                              Inl e \<Rightarrow> Inl e
                            | Inr v \<Rightarrow>
                                if c = CHR ''K'' then Inr (fmul L v (fconst L (10 ^ 3)))
                                else if c = CHR ''M'' then Inr (fmul L v (fconst L (10 ^ 6)))
                                else if c = CHR ''G'' then Inr (fmul L v (fconst L (10 ^ 9)))
                                else if c = CHR ''T'' then Inr (fmul L v (fconst L (10 ^ 12)))
                                else if c = CHR ''P'' then Inr (fmul L v (fconst L (10 ^ 15)))
                                else if c = CHR ''E'' then Inr (fmul L v (fconst L (10 ^ 18)))
                                else Inl (Error ''Invalid numeric abbreviation'')))"

definition set_float :: "'f float_lib \<Rightarrow> kind \<Rightarrow> string \<Rightarrow> failure + 'f" where
  "set_float L k val = (if k = Float32 then floatFix L val 32 else floatFix L val 64)"

subsection \<open>Booleans\<close>

text \<open>\<^verbatim>\<open>set_bool\<close> gets the destination's value and returns what it holds afterwards.\<close>

definition set_bool :: "bool \<Rightarrow> string \<Rightarrow> bool" where
  "set_bool v1 val0 =
     (let val = toLower val0;
          v2 = (if val = ''true'' \<or> val = ''yes'' \<or> val = ''on'' \<or> val = ''1'' then True else v1)
      in if val = ''false'' \<or> val = ''no'' \<or> val = ''off'' \<or> val = ''0'' then False else v2)"

subsection \<open>Times\<close>

definition time_fmt :: string where "time_fmt = ''15:04:05''"
definition date_fmt :: string where "date_fmt = ''2006-01-02''"
definition utc_time :: string where "utc_time = ''15:04:05 -0700''"
definition date_time :: string where "date_time = ''2006-01-02 15:04:05''"
definition utc_date :: string where "utc_date = ''2006-01-02 15:04:05 -0700''"

text \<open>
  \<^verbatim>\<open>time.Parse(layout, value)\<close> is the library's.  \<open>'t\<close> is the type \<^verbatim>\<open>time.Time\<close>, an error
  is its message.  How a layout with elements reads a value is taken as given
  (\<open>Parse_layout\<close>).  A layout without any element is the one case written out: the
  library's loop finds no element in it, accepts the value when nothing of it is left, with
  the fields of the time at their defaults (\<open>zero_date\<close>, midnight of January 1 of the year 0,
  UTC), and reports the left-over text otherwise (\<open>extra_text\<close> is that message).
\<close>

record 't time_lib =
  Parse_layout :: "string \<Rightarrow> string \<Rightarrow> string + 't"
  zero_date :: 't
  extra_text :: "string \<Rightarrow> string"

definition time_Parse :: "'t time_lib \<Rightarrow> string \<Rightarrow> string \<Rightarrow> string + 't" where
  "time_Parse T layout value =
     (if layout = [] then (if value = [] then Inr (zero_date T) else Inl (extra_text T value))
      else Parse_layout T layout value)"

definition set_time :: "'t time_lib \<Rightarrow> string \<Rightarrow> string + 't" where
  "set_time T val =
     (let n = length val;
          tformat = (if n = 25 then utc_date
                     else if n = 19 then date_time
                     else if n = 14 then utc_time
                     else if n = 10 then date_fmt
                     else if n = 8 then time_fmt
                     else [])
      in time_Parse T tformat val)"

section \<open>The flat map and the decoder\<close>

text \<open>
  \<^verbatim>\<open>fMap\<close> maps a key path to the value and the line it came from.  It is kept as a list of
  pairs with one pair for a key; the order of a Go map is unspecified, and the list's order
  is only how this model stores it.
\<close>

record v =
  val :: string
  no :: nat
  isDefined :: bool

type_synonym fMap = "(string \<times> v) list"

definition exists :: "fMap \<Rightarrow> string \<Rightarrow> bool" where
  "exists m key = (map_of m key \<noteq> None)"

definition ALLOW_SNAKE_CASE :: int where "ALLOW_SNAKE_CASE = 1"
definition IGNORE_CASE :: int where "IGNORE_CASE = 2"
definition PARSE_LOWER_CASE :: int where "PARSE_LOWER_CASE = 4"
definition ENCODE_SNAKE_CASE :: int where "ENCODE_SNAKE_CASE = 8"
definition ENCODE_LOWER_CASE :: int where "ENCODE_LOWER_CASE = 16"
definition ENCODE_ZERO_VALUES :: int where "ENCODE_ZERO_VALUES = 32"
definition OVERWRITE_FILE :: int where "OVERWRITE_FILE = 64"

definition isOption :: "int \<Rightarrow> int \<Rightarrow> bool" where
  "isOption option opts = (option = option AND opts)"

text \<open>\<^verbatim>\<open>toSnakeCase\<close>: one pass over the bytes with the three flags and the counter.\<close>

fun toSnakeCase_loop :: "bool \<Rightarrow> bool \<Rightarrow> bool \<Rightarrow> nat \<Rightarrow> string \<Rightarrow> string \<Rightarrow> string" where
  "toSnakeCase_loop lastn lastu lastw i bs [] = bs"
| "toSnakeCase_loop lastn lastu lastw i0 bs (c # cs) =
     (let i1 = i0 + 1;
          n = isNumber c; w = isLower c; u = isUpper c;
          i2 = (if c = CHR ''_'' then 0 else i1);
          (bs1, i3) =
            (if i2 > 1 \<and> n \<noteq> lastn then (bs @ ''_'', i2)
             else if i2 > 1 \<and> u \<noteq> lastu \<and> lastw then (bs @ ''_'', 0)
             else (bs, i2))
      in toSnakeCase_loop n u w i3 (bs1 @ [lower c]) cs)"

definition toSnakeCase :: "string \<Rightarrow> string" where
  "toSnakeCase s = toSnakeCase_loop False False False 0 [] s"

text \<open>The destination handed to \<^verbatim>\<open>NewDecoder\<close>, as far as the constructor looks at it.\<close>

datatype dest =
    MapDest kind
  | StructPtr
  | OtherDest

record Decoder =
  dec_dest :: dest
  dec_options :: int
  dec_fieldMap :: fMap
  isMap :: bool

definition dec_allowedOption :: "int \<Rightarrow> bool" where
  "dec_allowedOption option =
     (option = option AND (ALLOW_SNAKE_CASE OR ENCODE_SNAKE_CASE OR IGNORE_CASE OR ENCODE_LOWER_CASE))"

definition NewDecoder :: "dest \<Rightarrow> int list \<Rightarrow> failure + Decoder" where
  "NewDecoder x opts =
     (let dc = \<lparr>dec_dest = x, dec_options = 0, dec_fieldMap = [], isMap = False\<rparr>
      in case x of
           MapDest keykind \<Rightarrow>
             if keykind \<noteq> String then Inl (Panic ''Expecting map with string keys'')
             else Inr (dc\<lparr>isMap := True\<rparr>)
         | OtherDest \<Rightarrow> Inl (Panic ''Expecting pointer to a struct or a map'')
         | StructPtr \<Rightarrow>
             if length opts > 0 then
               (if \<not> dec_allowedOption (hd opts) then Inl (Panic ''Option not allowed'')
                else Inr (dc\<lparr>dec_options := hd opts\<rparr>))
             else Inr dc)"

text \<open>
  \<^verbatim>\<open>getValue\<close> looks the key up as it is, then in snake case, then in lower case, each of the
  two only under its option, and marks the entry it finds as defined.
\<close>

definition mark_defined :: "fMap \<Rightarrow> string \<Rightarrow> fMap" where
  "mark_defined m k = map (\<lambda>(k', vs). if k' = k then (k', vs\<lparr>isDefined := True\<rparr>) else (k', vs)) m"

definition lookup_mark :: "Decoder \<Rightarrow> string \<Rightarrow> ((string \<times> nat \<times> bool) \<times> Decoder) option" where
  "lookup_mark dc k =
     (case map_of (dec_fieldMap dc) k of
        Some vs \<Rightarrow> Some ((val vs, no vs, True), dc\<lparr>dec_fieldMap := mark_defined (dec_fieldMap dc) k\<rparr>)
      | None \<Rightarrow> None)"

definition getValue :: "Decoder \<Rightarrow> string \<Rightarrow> (string \<times> nat \<times> bool) \<times> Decoder" where
  "getValue dc k =
     (case lookup_mark dc k of
        Some r \<Rightarrow> r
      | None \<Rightarrow>
          (case (if isOption ALLOW_SNAKE_CASE (dec_options dc)
                 then lookup_mark dc (toSnakeCase k) else None) of
             Some r \<Rightarrow> r
           | None \<Rightarrow>
               (case (if isOption IGNORE_CASE (dec_options dc)
                      then lookup_mark dc (toLower k) else None) of
                  Some r \<Rightarrow> r
                | None \<Rightarrow> (([], 0, False), dc))))"

text \<open>
  \<^verbatim>\<open>newError\<close> attaches the line.  The branch of \<^verbatim>\<open>iterateStructFields\<close> for a field of type
  \<^verbatim>\<open>time.Time\<close> (the field is settable): the value found under the key goes through
  \<^verbatim>\<open>set_time\<close>; the result is the error, if any, the time stored, if any, and the decoder.
\<close>

definition newError :: "string \<Rightarrow> nat \<Rightarrow> string" where
  "newError msg n = (if n > 0 then msg @ '' at line '' @ itoa (int n) else msg)"

definition iterateStructFields_time ::
    "'t time_lib \<Rightarrow> Decoder \<Rightarrow> string \<Rightarrow> string option \<times> 't option \<times> Decoder" where
  "iterateStructFields_time T dc parent_key =
     (case getValue dc parent_key of
        ((raw, line, ok), o1) \<Rightarrow>
          if ok then
            (case set_time T raw of
               Inl err \<Rightarrow> (Some (newError err line), None, o1)
             | Inr t \<Rightarrow> (None, Some t, o1))
          else (None, None, o1))"


section \<open>The scanner\<close>

definition isWhiteSp :: "char \<Rightarrow> bool" where
  "isWhiteSp c = ((9 \<le> byte c \<and> byte c \<le> 13) \<or> byte c = 32)"

definition rtrim :: "string \<Rightarrow> string" where
  "rtrim s = rev (dropWhile isWhiteSp (rev s))"

definition trim :: "string \<Rightarrow> string" where
  "trim s = dropWhile isWhiteSp (rtrim s)"

text \<open>
  The parser's state.  \<open>reader\<close> is what is left of the input; \<open>include_paths\<close> is the field
  \<^verbatim>\<open>include\<close>.  An error in \<open>errs\<close> is its message.
\<close>

record Parser =
  reader :: string
  lineno :: nat
  options :: int
  errs :: "string list"
  include_paths :: "string list"

definition appendError :: "Parser \<Rightarrow> string \<Rightarrow> nat \<Rightarrow> Parser" where
  "appendError ps msg n = ps\<lparr>errs := errs ps @ [newError msg n]\<rparr>"

text \<open>
  \<^verbatim>\<open>ReadBytes('\n')\<close> of \<^verbatim>\<open>bufio.Reader\<close>: the bytes up to and with the next line feed; when
  there is none, all that is left, together with the error \<^verbatim>\<open>EOF\<close> (the flag).  The result
  is the data, the flag and the rest of the input.
\<close>

definition ReadBytes :: "string \<Rightarrow> string \<times> bool \<times> string" where
  "ReadBytes r =
     (if lf \<in> set r
      then (takeWhile (\<lambda>c. c \<noteq> lf) r @ [lf], False, tl (dropWhile (\<lambda>c. c \<noteq> lf) r))
      else (r, True, []))"

text \<open>
  The pattern \<^verbatim>\<open>([^#]*)[#]\<close>, searched anywhere in the line, matches as soon as the line has
  a \<^verbatim>\<open>#\<close>, from the start of the line; its group is what precedes the first \<^verbatim>\<open>#\<close>.
\<close>

definition match_comment :: "string \<Rightarrow> string option" where
  "match_comment s =
     (if CHR ''#'' \<in> set s then Some (takeWhile (\<lambda>c. c \<noteq> CHR ''#'') s) else None)"

lemma ReadBytes_shorter:
  assumes "(b, eof, rest) = ReadBytes r" and "\<not> (eof \<and> b = [])"
  shows "length rest < length r"
proof (cases "lf \<in> set r")
  case True
  then have ne: "dropWhile (\<lambda>c. c \<noteq> lf) r \<noteq> []"
    by simp
  have "rest = tl (dropWhile (\<lambda>c. c \<noteq> lf) r)"
    using assms(1) True by (simp add: ReadBytes_def)
  then have "length rest < length (dropWhile (\<lambda>c. c \<noteq> lf) r)"
    using ne by (cases "dropWhile (\<lambda>c. c \<noteq> lf) r") auto
  also have "\<dots> \<le> length r"
    by (rule length_dropWhile_le)
  finally show ?thesis .
next
  case False
  then show ?thesis
    using assms by (auto simp: ReadBytes_def)
qed

text \<open>
  \<^verbatim>\<open>nextLine\<close>: the next line that is not empty once its comment is cut and it is trimmed;
  \<open>None\<close> when the input ends first (the error \<^verbatim>\<open>EOF\<close>).  Every line read is counted.
\<close>

function nextLine :: "Parser \<Rightarrow> string option \<times> Parser" where
  "nextLine ps =
     (case ReadBytes (reader ps) of
        (b, eof, rest) \<Rightarrow>
          if eof \<and> b = [] then (None, ps)
          else let ps1 = ps\<lparr>reader := rest, lineno := lineno ps + 1\<rparr>;
                   s = trim (case match_comment b of Some g \<Rightarrow> g | None \<Rightarrow> b)
               in if s \<noteq> [] then (Some s, ps1) else nextLine ps1)"
  by pat_completeness auto
termination
  by (relation "measure (\<lambda>ps. length (reader ps))") (auto dest: ReadBytes_shorter)


section \<open>The patterns\<close>

text \<open>
  The compiled patterns are applied to the lines \<^verbatim>\<open>nextLine\<close> returns, which have no white
  space at either end and no line feed, to what the patterns cut out of such lines, and to
  keys.  Each matcher below gives, for such a text, the groups of the pattern's first match
  (\<^verbatim>\<open>FindStringSubmatch\<close>), or \<open>None\<close>.  In the patterns \<^verbatim>\<open>\s\<close> is one of tab, line feed,
  form feed, carriage return and space, and \<^verbatim>\<open>\w\<close> is an ASCII letter, a digit or \<^verbatim>\<open>_\<close>.
\<close>

definition re_space :: "char \<Rightarrow> bool" where
  "re_space c = (byte c = 9 \<or> byte c = 10 \<or> byte c = 12 \<or> byte c = 13 \<or> byte c = 32)"

definition re_word :: "char \<Rightarrow> bool" where
  "re_word c = (isNumber c \<or> isUpper c \<or> isLower c \<or> c = CHR ''_'')"

definition key_char :: "char \<Rightarrow> bool" where
  "key_char c = (re_word c \<or> c = CHR ''.'')"

text \<open>
  After the key, \<^verbatim>\<open>\s*[=:\s]\s*\<close>: where the text that follows the separator can start, in
  the order in which the matcher tries it.  Either the first byte after the white space is
  \<^verbatim>\<open>=\<close> or \<^verbatim>\<open>:\<close> and the text starts after it and the white space behind it; or the
  separator is the last byte of the white space.
\<close>

definition after_separator :: "string \<Rightarrow> string list" where
  "after_separator r =
     (let r' = dropWhile re_space r
      in (if r' \<noteq> [] \<and> (hd r' = CHR ''='' \<or> hd r' = CHR '':'')
          then [dropWhile re_space (tl r')] else [])
         @ (if r' \<noteq> r then [r'] else []))"

text \<open>\<^verbatim>\<open>^(?i)include +("?[^"=]*)"?$\<close>: the group starts before the optional opening quote.\<close>

definition match_include :: "string \<Rightarrow> string option" where
  "match_include s =
     (if toLower (take 7 s) = ''include'' then
        (let r0 = drop 7 s;
             r = dropWhile (\<lambda>c. c = CHR '' '') r0;
             q = (if r \<noteq> [] \<and> hd r = qt then [qt] else []);
             r1 = (if r \<noteq> [] \<and> hd r = qt then tl r else r);
             body = takeWhile (\<lambda>c. c \<noteq> qt \<and> c \<noteq> CHR ''='') r1;
             rest = dropWhile (\<lambda>c. c \<noteq> qt \<and> c \<noteq> CHR ''='') r1
         in if r \<noteq> r0 \<and> (rest = [] \<or> rest = [qt]) then Some (q @ body) else None)
      else None)"

text \<open>\<^verbatim>\<open>^([\w]+)\s*[=:\s]\s*{\<close>: the group is the key; what follows the brace is not looked at.\<close>

definition match_open_brace :: "string \<Rightarrow> string option" where
  "match_open_brace s =
     (let key = takeWhile re_word s;
          r = dropWhile re_word s
      in if key \<noteq> [] \<and> (\<exists>t \<in> set (after_separator r). t \<noteq> [] \<and> hd t = CHR ''{'')
         then Some key else None)"

text \<open>\<^verbatim>\<open>^\s*}\<close>\<close>

definition match_close_brace :: "string \<Rightarrow> bool" where
  "match_close_brace s = (let r = dropWhile re_space s in r \<noteq> [] \<and> hd r = CHR ''}'')"

text \<open>\<^verbatim>\<open>^\s*([\w\.]+)\s*[=:\s]\s*<<([\w]+)\<close>: the key and the terminating code.\<close>

definition heredoc_code :: "string \<Rightarrow> string option" where
  "heredoc_code t =
     (if take 2 t = ''<<'' \<and> takeWhile re_word (drop 2 t) \<noteq> []
      then Some (takeWhile re_word (drop 2 t)) else None)"

definition match_heredoc :: "string \<Rightarrow> (string \<times> string) option" where
  "match_heredoc s =
     (let s1 = dropWhile re_space s;
          key = takeWhile key_char s1;
          r = dropWhile key_char s1
      in if key = [] then None
         else (case List.map_filter heredoc_code (after_separator r) of
                 [] \<Rightarrow> None
               | code # _ \<Rightarrow> Some (key, code)))"

text \<open>\<^verbatim>\<open>^\s*([\w\.]+)\s*[=:\s]\s*(.*)\\$\<close>: the key, and the value without the final backslash.\<close>

definition match_multiline :: "string \<Rightarrow> (string \<times> string) option" where
  "match_multiline s =
     (let s1 = dropWhile re_space s;
          key = takeWhile key_char s1;
          r = dropWhile key_char s1
      in if key = [] then None
         else (case filter (\<lambda>t. t \<noteq> [] \<and> last t = backslash \<and> lf \<notin> set t) (after_separator r) of
                 [] \<Rightarrow> None
               | t # _ \<Rightarrow> Some (key, butlast t)))"

text \<open>\<^verbatim>\<open>^\s*([\w\.]+)\s*[=:\s]\s*(.+)\<close>: the key and the rest of the line.\<close>

definition match_keyval :: "string \<Rightarrow> (string \<times> string) option" where
  "match_keyval s =
     (let s1 = dropWhile re_space s;
          key = takeWhile key_char s1;
          r = dropWhile key_char s1
      in if key = [] then None
         else (case filter (\<lambda>t. t \<noteq> [] \<and> hd t \<noteq> lf) (after_separator r) of
                 [] \<Rightarrow> None
               | t # _ \<Rightarrow> Some (key, takeWhile (\<lambda>c. c \<noteq> lf) t)))"

text \<open>
  \<^verbatim>\<open>^"(.+)"\s*$\<close>: the closing quote is the last byte before the trailing white space; the
  group is what stands between the two quotes, not empty and without line feed.
\<close>

definition match_quoted :: "string \<Rightarrow> string option" where
  "match_quoted s =
     (if s \<noteq> [] \<and> hd s = qt then
        (let core = rev (dropWhile re_space (rev (tl s)))
         in if core \<noteq> [] \<and> last core = qt \<and> butlast core \<noteq> [] \<and> lf \<notin> set (butlast core)
            then Some (butlast core) else None)
      else None)"

text \<open>\<^verbatim>\<open>^\s*([^\\]*)\\$\<close>: one backslash, the last byte; the group is what precedes it.\<close>

definition match_multiline_cont :: "string \<Rightarrow> string option" where
  "match_multiline_cont s =
     (if s \<noteq> [] \<and> last s = backslash \<and> backslash \<notin> set (butlast s)
      then Some (dropWhile re_space (butlast s)) else None)"

text \<open>\<^verbatim>\<open>^\.|\.$|\.\.|^_$\<close>, searched anywhere in the key.\<close>

fun has_dotdot :: "string \<Rightarrow> bool" where
  "has_dotdot (a # b # cs) = ((a = CHR ''.'' \<and> b = CHR ''.'') \<or> has_dotdot (b # cs))"
| "has_dotdot cs = False"

definition badKey :: "string \<Rightarrow> bool" where
  "badKey k =
     (k \<noteq> [] \<and> (hd k = CHR ''.'' \<or> last k = CHR ''.'' \<or> has_dotdot k \<or> k = ''_''))"

text \<open>The \<^verbatim>\<open>switch\<close> of \<^verbatim>\<open>recursive_parse\<close>: the first pattern that matches decides.\<close>

datatype line_class =
    Include string
  | OpenBrace string
  | CloseBrace
  | HereDoc string string
  | MultiLine string string
  | KeyVal string string
  | Invalid

definition classify :: "string \<Rightarrow> line_class" where
  "classify s =
     (case match_include s of
        Some path \<Rightarrow> Include path
      | None \<Rightarrow>
     (case match_open_brace s of
        Some key \<Rightarrow> OpenBrace key
      | None \<Rightarrow>
     (if match_close_brace s then CloseBrace
      else
     (case match_heredoc s of
        Some (key, code) \<Rightarrow> HereDoc key code
      | None \<Rightarrow>
     (case match_multiline s of
        Some (key, value) \<Rightarrow> MultiLine key value
      | None \<Rightarrow>
     (case match_keyval s of
        Some (key, value) \<Rightarrow> KeyVal key value
      | None \<Rightarrow> Invalid))))))"


section \<open>The scope parser\<close>

subsection \<open>Unquoting\<close>

text \<open>
  \<^verbatim>\<open>strings.Replace(s, old, new, -1)\<close> for an \<open>old\<close> of one byte, and for the four bytes of
  \<^verbatim>\<open>\x22\<close> put back to a quote.
\<close>

definition Replace1 :: "string \<Rightarrow> char \<Rightarrow> string \<Rightarrow> string" where
  "Replace1 s old new = concat (map (\<lambda>c. if c = old then new else [c]) s)"

definition escaped_quote :: string where
  "escaped_quote = [backslash, CHR ''x'', CHR ''2'', CHR ''2'']"

fun restore_quotes :: "string \<Rightarrow> string" where
  "restore_quotes (a # b # c # d # cs) =
     (if [a, b, c, d] = escaped_quote then qt # restore_quotes cs
      else a # restore_quotes (b # c # d # cs))"
| "restore_quotes cs = cs"

text \<open>
  \<^verbatim>\<open>unquote\<close>.  The library's \<^verbatim>\<open>strconv.Unquote\<close> is the parameter \<open>Unquote\<close>; it fails with
  \<^verbatim>\<open>ErrSyntax\<close> only, whose message is \<^verbatim>\<open>invalid syntax\<close>.  The result is the string and
  the error, if any.  A value that is one quote alone passes the test for boundary quotes
  with both ends on the same byte, and the slice \<^verbatim>\<open>s[1:0]\<close> panics.
\<close>

definition unquote :: "(string \<Rightarrow> string option) \<Rightarrow> string \<Rightarrow> failure + (string \<times> string option)" where
  "unquote Unquote s0 =
     (let l = length s0
      in if l = 0 then Inr ([], None)
         else if hd s0 = qt \<and> last s0 = qt \<and> l = 1 then Inl (Panic ''slice bounds out of range'')
         else let s1 = (if hd s0 = qt \<and> last s0 = qt then butlast (tl s0) else s0);
                  s2 = Replace1 s1 lf [backslash, CHR ''n''];
                  s3 = Replace1 s2 qt escaped_quote
              in case Unquote ([qt] @ s3 @ [qt]) of
                   None \<Rightarrow> Inr (restore_quotes s3, Some (''invalid syntax: Unquote('' @ s3 @ '')''))
                 | Some t \<Rightarrow> Inr (restore_quotes t, None))"

subsection \<open>Heredocs and continued lines\<close>

function readHereDoc_loop :: "string \<Rightarrow> string \<Rightarrow> Parser \<Rightarrow> string \<times> bool \<times> Parser" where
  "readHereDoc_loop code content ps =
     (case ReadBytes (reader ps) of
        (b, e, rest) \<Rightarrow>
          if e \<and> length b = 0 then (content, False, ps)
          else let ps1 = ps\<lparr>reader := rest, lineno := lineno ps + 1\<rparr>
               in if code = trim b then (content, True, ps1)
                  else let s = rtrim b;
                           content1 = (if content \<noteq> [] then content @ [lf] else content)
                       in readHereDoc_loop code (content1 @ s) ps1)"
  by pat_completeness auto
termination
  by (relation "measure (\<lambda>(code, content, ps). length (reader ps))")
     (auto dest: ReadBytes_shorter)

definition readHereDoc :: "Parser \<Rightarrow> string \<Rightarrow> (string \<times> string option) \<times> Parser" where
  "readHereDoc ps code =
     (case readHereDoc_loop code [] ps of
        (content, isCode, ps1) \<Rightarrow>
          ((content, if \<not> isCode then Some ''No terminating heredoc code'' else None), ps1))"

declare nextLine.simps [simp del]

lemma nextLine_shorter:
  "nextLine ps = (Some s, ps1) \<Longrightarrow> length (reader ps1) < length (reader ps)"
proof (induction ps rule: nextLine.induct)
  case (1 ps)
  obtain b eof rest where rb: "(b, eof, rest) = ReadBytes (reader ps)"
    by (metis prod_cases3)
  show ?case
  proof (cases "eof \<and> b = []")
    case True
    then show ?thesis
      using "1.prems" rb [symmetric] by (simp add: nextLine.simps [of ps])
  next
    case False
    let ?ps1 = "ps\<lparr>reader := rest, lineno := lineno ps + 1\<rparr>"
    let ?s = "trim (case match_comment b of Some g \<Rightarrow> g | None \<Rightarrow> b)"
    have less: "length rest < length (reader ps)"
      using rb False by (rule ReadBytes_shorter)
    show ?thesis
    proof (cases "?s \<noteq> []")
      case True
      then have "nextLine ps = (Some ?s, ?ps1)"
        using False rb [symmetric] by (auto simp: nextLine.simps [of ps] Let_def)
      then show ?thesis
        using "1.prems" less by auto
    next
      case empty: False
      then have eq: "nextLine ps = nextLine ?ps1"
        using False rb [symmetric] by (auto simp: nextLine.simps [of ps] Let_def)
      have "length (reader ps1) < length (reader ?ps1)"
        by (rule "1.IH" [OF rb refl False refl refl]) (use empty "1.prems" eq in simp_all)
      then show ?thesis
        using less by simp
    qed
  qed
qed

declare readHereDoc_loop.simps [simp del]

function readMultiLine_loop :: "Parser \<Rightarrow> string \<Rightarrow> string \<times> Parser" where
  "readMultiLine_loop ps content =
     (case nextLine ps of
        (None, ps1) \<Rightarrow>
          (content, appendError ps1 ''EOF encountered before multiline termination'' (lineno ps1))
      | (Some s, ps1) \<Rightarrow>
          (case match_multiline_cont s of
             None \<Rightarrow> (content @ (case match_quoted s of Some g \<Rightarrow> g | None \<Rightarrow> s), ps1)
           | Some s1 \<Rightarrow>
               readMultiLine_loop ps1
                 (content @ (case match_quoted s1 of Some g \<Rightarrow> g | None \<Rightarrow> s1))))"
  by pat_completeness auto
termination
  by (relation "measure (\<lambda>(ps, content). length (reader ps))")
     (auto dest: nextLine_shorter [OF sym])

declare readMultiLine_loop.simps [simp del]

definition readMultiLine :: "Parser \<Rightarrow> string \<Rightarrow> string \<times> Parser" where
  "readMultiLine ps content =
     readMultiLine_loop ps (case match_quoted content of Some g \<Rightarrow> g | None \<Rightarrow> content)"


subsection \<open>One scope\<close>

definition nested :: string where
  "nested = ''~NESTED~''"

text \<open>The deferred function of \<^verbatim>\<open>recursive_parse\<close>: the placeholders of brace blocks go.\<close>

definition remove_nested :: "fMap \<Rightarrow> fMap" where
  "remove_nested m = filter (\<lambda>(key, vs). val vs \<noteq> nested) m"

text \<open>\<^verbatim>\<open>fieldMap[key] = &v{val, lineno, false, 0}\<close>\<close>

definition set_entry :: "fMap \<Rightarrow> string \<Rightarrow> string \<Rightarrow> nat \<Rightarrow> fMap" where
  "set_entry m key value line = AList.update key \<lparr>val = value, no = line, isDefined = False\<rparr> m"

text \<open>
  The cases of the \<^verbatim>\<open>switch\<close> that do not recurse.  Each gets the parser after the line
  was read and the scope's map, and returns both as the case leaves them; a panic of
  \<^verbatim>\<open>unquote\<close> ends the parse.
\<close>

definition store_unquoted ::
    "(string \<Rightarrow> string option) \<Rightarrow> Parser \<Rightarrow> fMap \<Rightarrow> string \<Rightarrow> string \<Rightarrow> failure + (fMap \<times> Parser)" where
  "store_unquoted Unquote ps fieldMap key value =
     (case unquote Unquote value of
        Inl p \<Rightarrow> Inl p
      | Inr (value1, Some e) \<Rightarrow> Inr (fieldMap, appendError ps e (lineno ps))
      | Inr (value1, None) \<Rightarrow> Inr (set_entry fieldMap key value1 (lineno ps), ps))"

definition heredoc_case ::
    "(string \<Rightarrow> string option) \<Rightarrow> Parser \<Rightarrow> fMap \<Rightarrow> string \<Rightarrow> string \<Rightarrow> failure + (fMap \<times> Parser)" where
  "heredoc_case Unquote ps fieldMap key code =
     (case readHereDoc ps code of
        ((value, Some e), ps1) \<Rightarrow> Inr (fieldMap, appendError ps1 e (lineno ps1))
      | ((value, None), ps1) \<Rightarrow>
          if exists fieldMap key
          then Inr (fieldMap, appendError ps1 ''Duplicate key'' (lineno ps1))
          else store_unquoted Unquote ps1 fieldMap key value)"

definition multiline_case ::
    "(string \<Rightarrow> string option) \<Rightarrow> Parser \<Rightarrow> fMap \<Rightarrow> string \<Rightarrow> string \<Rightarrow> failure + (fMap \<times> Parser)" where
  "multiline_case Unquote ps fieldMap key value =
     (case readMultiLine ps value of
        (value1, ps1) \<Rightarrow>
          if exists fieldMap key
          then Inr (fieldMap, appendError ps1 ''Duplicate key'' (lineno ps1))
          else store_unquoted Unquote ps1 fieldMap key value1)"

definition keyval_case ::
    "(string \<Rightarrow> string option) \<Rightarrow> Parser \<Rightarrow> fMap \<Rightarrow> string \<Rightarrow> string \<Rightarrow> failure + (fMap \<times> Parser)" where
  "keyval_case Unquote ps fieldMap key value =
     (if exists fieldMap key
      then Inr (fieldMap, appendError ps ''Duplicate key'' (lineno ps))
      else if badKey key
      then Inr (fieldMap, appendError ps ''Invalid key'' (lineno ps))
      else store_unquoted Unquote ps fieldMap key value)"

definition flat_case ::
    "(string \<Rightarrow> string option) \<Rightarrow> Parser \<Rightarrow> fMap \<Rightarrow> line_class \<Rightarrow> failure + (fMap \<times> Parser)" where
  "flat_case Unquote ps fieldMap c =
     (case c of
        Include path \<Rightarrow> Inr (fieldMap, ps\<lparr>include_paths := include_paths ps @ [path]\<rparr>)
      | HereDoc key code \<Rightarrow> heredoc_case Unquote ps fieldMap key code
      | MultiLine key value \<Rightarrow> multiline_case Unquote ps fieldMap key value
      | KeyVal key value \<Rightarrow> keyval_case Unquote ps fieldMap key value
      | _ \<Rightarrow> Inr (fieldMap, appendError ps ''Invalid data'' (lineno ps)))"

text \<open>
  The case of an opening brace, once the nested scope has returned its map \<open>emap\<close> and its
  error: \<open>line\<close> is the line of the opening brace.
\<close>

definition open_brace_case ::
    "Parser \<Rightarrow> fMap \<Rightarrow> string \<Rightarrow> nat \<Rightarrow> fMap \<Rightarrow> string option \<Rightarrow> fMap \<times> Parser" where
  "open_brace_case ps fieldMap key line emap err =
     (case err of
        Some e \<Rightarrow> (fieldMap, appendError ps e line)
      | None \<Rightarrow>
          if exists fieldMap key then (fieldMap, appendError ps ''Duplicate key'' line)
          else (fold (\<lambda>(k, value) m. AList.update (key @ ''.'' @ k) value m) emap
                  (set_entry fieldMap key nested line), ps))"

subsection \<open>Reading never puts input back\<close>

lemma reader_appendError [simp]: "reader (appendError ps msg n) = reader ps"
  by (simp add: appendError_def)

lemma nextLine_le: "nextLine ps = (x, ps1) \<Longrightarrow> length (reader ps1) \<le> length (reader ps)"
proof (induction ps rule: nextLine.induct)
  case (1 ps)
  obtain b eof rest where rb: "(b, eof, rest) = ReadBytes (reader ps)"
    by (metis prod_cases3)
  show ?case
  proof (cases "eof \<and> b = []")
    case True
    then show ?thesis
      using "1.prems" rb [symmetric] by (simp add: nextLine.simps [of ps])
  next
    case False
    let ?ps1 = "ps\<lparr>reader := rest, lineno := lineno ps + 1\<rparr>"
    let ?s = "trim (case match_comment b of Some g \<Rightarrow> g | None \<Rightarrow> b)"
    have less: "length rest < length (reader ps)"
      using rb False by (rule ReadBytes_shorter)
    show ?thesis
    proof (cases "?s \<noteq> []")
      case True
      then have "nextLine ps = (Some ?s, ?ps1)"
        using False rb [symmetric] by (auto simp: nextLine.simps [of ps] Let_def)
      then show ?thesis
        using "1.prems" less by auto
    next
      case empty: False
      then have eq: "nextLine ps = nextLine ?ps1"
        using False rb [symmetric] by (auto simp: nextLine.simps [of ps] Let_def)
      have "length (reader ps1) \<le> length (reader ?ps1)"
        by (rule "1.IH" [OF rb refl False refl refl]) (use empty "1.prems" eq in simp_all)
      then show ?thesis
        using less by simp
    qed
  qed
qed

lemma readHereDoc_loop_le:
  "readHereDoc_loop code content ps = (c, isCode, ps1) \<Longrightarrow> length (reader ps1) \<le> length (reader ps)"
proof (induction code content ps rule: readHereDoc_loop.induct)
  case (1 code content ps)
  obtain b e rest where rb: "(b, e, rest) = ReadBytes (reader ps)"
    by (metis prod_cases3)
  show ?case
  proof (cases "e \<and> length b = 0")
    case True
    then show ?thesis
      using "1.prems" rb [symmetric] by (simp add: readHereDoc_loop.simps [of code content ps])
  next
    case False
    let ?ps1 = "ps\<lparr>reader := rest, lineno := lineno ps + 1\<rparr>"
    have less: "length rest < length (reader ps)"
      using rb False by (intro ReadBytes_shorter [OF rb]) simp
    show ?thesis
    proof (cases "code = trim b")
      case True
      then have "readHereDoc_loop code content ps = (content, True, ?ps1)"
        using False rb [symmetric] by (subst readHereDoc_loop.simps) (auto simp: Let_def)
      then show ?thesis
        using "1.prems" less by auto
    next
      case other: False
      let ?c = "(if content \<noteq> [] then content @ [lf] else content) @ rtrim b"
      have eq: "readHereDoc_loop code content ps = readHereDoc_loop code ?c ?ps1"
        using other False rb [symmetric]
        by (subst readHereDoc_loop.simps) (auto simp: Let_def)
      have "length (reader ps1) \<le> length (reader ?ps1)"
        by (rule "1.IH" [OF rb refl False refl other refl refl]) (use "1.prems" eq in simp_all)
      then show ?thesis
        using less by simp
    qed
  qed
qed

lemma readMultiLine_loop_le:
  "readMultiLine_loop ps content = (c, ps1) \<Longrightarrow> length (reader ps1) \<le> length (reader ps)"
proof (induction ps content arbitrary: c ps1 rule: readMultiLine_loop.induct)
  case (1 ps content)
  obtain x ps' where nl: "nextLine ps = (x, ps')"
    by (cases "nextLine ps")
  have le: "length (reader ps') \<le> length (reader ps)"
    using nl by (rule nextLine_le)
  show ?case
  proof (cases x)
    case None
    then show ?thesis
      using "1.prems" nl le by (auto simp: readMultiLine_loop.simps [of ps content])
  next
    case line: (Some s)
    show ?thesis
    proof (cases "match_multiline_cont s")
      case None
      then show ?thesis
        using "1.prems" nl le line by (auto simp: readMultiLine_loop.simps [of ps content])
    next
      case (Some s1)
      have "length (reader ps1) \<le> length (reader ps')"
        by (rule "1.IH" [OF nl [symmetric] line Some])
           (use "1.prems" nl Some line in \<open>simp add: readMultiLine_loop.simps [of ps content]\<close>)
      then show ?thesis
        using le by simp
    qed
  qed
qed

lemma store_unquoted_reader:
  "store_unquoted uq ps fm key value = Inr (fm1, ps1) \<Longrightarrow> reader ps1 = reader ps"
  by (auto simp: store_unquoted_def split: sum.splits prod.splits option.splits)

lemma flat_case_le:
  assumes "flat_case uq ps fm c = Inr (fm1, ps1)"
  shows "length (reader ps1) \<le> length (reader ps)"
proof (cases c)
  case (HereDoc key code)
  obtain raw err ps' where rh: "readHereDoc ps code = ((raw, err), ps')"
    by (metis prod.exhaust)
  then have "length (reader ps') \<le> length (reader ps)"
    by (auto simp: readHereDoc_def split: prod.splits dest: readHereDoc_loop_le)
  moreover have "reader ps1 = reader ps'"
    using assms HereDoc rh
    by (auto simp: flat_case_def heredoc_case_def split: option.splits if_splits
             dest: store_unquoted_reader)
  ultimately show ?thesis by simp
next
  case (MultiLine key raw)
  obtain raw1 ps' where rm: "readMultiLine ps raw = (raw1, ps')"
    by (cases "readMultiLine ps raw")
  then have "length (reader ps') \<le> length (reader ps)"
    by (auto simp: readMultiLine_def dest: readMultiLine_loop_le)
  moreover have "reader ps1 = reader ps'"
    using assms MultiLine rm
    by (auto simp: flat_case_def multiline_case_def split: if_splits dest: store_unquoted_reader)
  ultimately show ?thesis by simp
next
  case (KeyVal key raw)
  then have "reader ps1 = reader ps"
    using assms
    by (auto simp: flat_case_def keyval_case_def split: if_splits dest: store_unquoted_reader)
  then show ?thesis by simp
qed (use assms in \<open>auto simp: flat_case_def\<close>)

lemma open_brace_case_reader:
  "open_brace_case ps fm key line emap err = (fm1, ps1) \<Longrightarrow> reader ps1 = reader ps"
  by (auto simp: open_brace_case_def split: option.splits if_splits)

text \<open>
  \<^verbatim>\<open>recursive_parse\<close>.  Its \<^verbatim>\<open>for\<close> loop is \<open>recursive_parse_loop\<close>, with the scope's map as
  it stands; a \<^verbatim>\<open>break\<close> inside the \<^verbatim>\<open>switch\<close> leaves the \<^verbatim>\<open>switch\<close> only, so the loop goes
  on with the next line.  The result is the map, the error, and the parser, or the panic.
\<close>

function recursive_parse_loop ::
    "(string \<Rightarrow> string option) \<Rightarrow> nat \<Rightarrow> Parser \<Rightarrow> fMap \<Rightarrow> failure + (fMap \<times> string option \<times> Parser)" where
  "recursive_parse_loop Unquote depth ps fieldMap =
     (case nextLine ps of
        (None, ps1) \<Rightarrow>
          if depth > 0 then Inr (remove_nested fieldMap, Some ''Missing closing brace'', ps1)
          else Inr (remove_nested fieldMap, None, ps1)
      | (Some s, ps1) \<Rightarrow>
          (case classify s of
             OpenBrace key \<Rightarrow>
               (case recursive_parse_loop Unquote (depth + 1) ps1 [] of
                  Inl p \<Rightarrow> Inl p
                | Inr (emap, err, ps2) \<Rightarrow>
                    (case open_brace_case ps2 fieldMap key (lineno ps1) emap err of
                       (fieldMap1, ps3) \<Rightarrow> recursive_parse_loop Unquote depth ps3 fieldMap1))
           | CloseBrace \<Rightarrow> Inr (remove_nested fieldMap, None, ps1)
           | c \<Rightarrow>
               (case flat_case Unquote ps1 fieldMap c of
                  Inl p \<Rightarrow> Inl p
                | Inr (fieldMap1, ps2) \<Rightarrow> recursive_parse_loop Unquote depth ps2 fieldMap1)))"
  by pat_completeness auto

termination
proof -
  have le: "length (reader ps') \<le> length (reader ps)"
    if "recursive_parse_loop_dom (uq, depth, ps, fm)"
      and "recursive_parse_loop uq depth ps fm = Inr (m, e, ps')"
    for uq depth ps fm m e ps'
    using that
  proof (induction uq depth ps fm arbitrary: m e ps' rule: recursive_parse_loop.pinduct)
    case (1 uq depth ps fm)
    note eq = recursive_parse_loop.psimps [OF "1.hyps"]
    obtain x ps1 where nl: "nextLine ps = (x, ps1)"
      by (cases "nextLine ps")
    have le1: "length (reader ps1) \<le> length (reader ps)"
      using nl by (rule nextLine_le)
    show ?case
    proof (cases x)
      case None
      then show ?thesis
        using "1.prems" nl le1 by (auto simp: eq split: if_splits)
    next
      case (Some s)
      show ?thesis
      proof (cases "classify s")
        case (OpenBrace key)
        from "1.prems" obtain emap err ps2 where
          inner: "recursive_parse_loop uq (depth + 1) ps1 [] = Inr (emap, err, ps2)"
          using nl Some OpenBrace by (auto simp: eq split: sum.splits)
        obtain fm1 ps3 where ob: "open_brace_case ps2 fm key (lineno ps1) emap err = (fm1, ps3)"
          by (cases "open_brace_case ps2 fm key (lineno ps1) emap err")
        have le2: "length (reader ps2) \<le> length (reader ps1)"
          using "1.IH"(2) [OF nl [symmetric] Some OpenBrace inner] .
        have r3: "reader ps3 = reader ps2"
          using ob by (rule open_brace_case_reader)
        have outer: "recursive_parse_loop uq depth ps3 fm1 = Inr (m, e, ps')"
          using "1.prems" nl Some OpenBrace inner ob by (simp add: eq)
        have "length (reader ps') \<le> length (reader ps3)"
          using "1.IH"(3) [OF nl [symmetric] Some OpenBrace inner refl refl ob [symmetric] outer] .
        then show ?thesis
          using le1 le2 r3 by simp
      next
        case CloseBrace
        then show ?thesis
          using "1.prems" nl le1 Some by (auto simp: eq)
      next
        case (Include path)
        from "1.prems" obtain fm1 ps2 where
          fc: "flat_case uq ps1 fm (Include path) = Inr (fm1, ps2)"
          and outer: "recursive_parse_loop uq depth ps2 fm1 = Inr (m, e, ps')"
          using nl Some Include by (auto simp: eq split: sum.splits)
        have "length (reader ps') \<le> length (reader ps2)"
          using "1.IH"(1) [OF nl [symmetric] Some Include fc refl outer] .
        then show ?thesis
          using le1 flat_case_le [OF fc] by simp
      next
        case (HereDoc key code)
        from "1.prems" obtain fm1 ps2 where
          fc: "flat_case uq ps1 fm (HereDoc key code) = Inr (fm1, ps2)"
          and outer: "recursive_parse_loop uq depth ps2 fm1 = Inr (m, e, ps')"
          using nl Some HereDoc by (auto simp: eq split: sum.splits)
        have "length (reader ps') \<le> length (reader ps2)"
          using "1.IH"(4) [OF nl [symmetric] Some HereDoc fc refl outer] .
        then show ?thesis
          using le1 flat_case_le [OF fc] by simp
      next
        case (MultiLine key raw)
        from "1.prems" obtain fm1 ps2 where
          fc: "flat_case uq ps1 fm (MultiLine key raw) = Inr (fm1, ps2)"
          and outer: "recursive_parse_loop uq depth ps2 fm1 = Inr (m, e, ps')"
          using nl Some MultiLine by (auto simp: eq split: sum.splits)
        have "length (reader ps') \<le> length (reader ps2)"
          using "1.IH"(5) [OF nl [symmetric] Some MultiLine fc refl outer] .
        then show ?thesis
          using le1 flat_case_le [OF fc] by simp
      next
        case (KeyVal key raw)
        from "1.prems" obtain fm1 ps2 where
          fc: "flat_case uq ps1 fm (KeyVal key raw) = Inr (fm1, ps2)"
          and outer: "recursive_parse_loop uq depth ps2 fm1 = Inr (m, e, ps')"
          using nl Some KeyVal by (auto simp: eq split: sum.splits)
        have "length (reader ps') \<le> length (reader ps2)"
          using "1.IH"(6) [OF nl [symmetric] Some KeyVal fc refl outer] .
        then show ?thesis
          using le1 flat_case_le [OF fc] by simp
      next
        case Invalid
        from "1.prems" obtain fm1 ps2 where
          fc: "flat_case uq ps1 fm Invalid = Inr (fm1, ps2)"
          and outer: "recursive_parse_loop uq depth ps2 fm1 = Inr (m, e, ps')"
          using nl Some Invalid by (auto simp: eq split: sum.splits)
        have "length (reader ps') \<le> length (reader ps2)"
          using "1.IH"(7) [OF nl [symmetric] Some Invalid fc refl outer] .
        then show ?thesis
          using le1 flat_case_le [OF fc] by simp
      qed
    qed
  qed
  show ?thesis
  proof (relation "measure (\<lambda>(uq, depth, ps, m). length (reader ps))", goal_cases)
    case 1
    show ?case by simp
  next
    case (3 uq depth ps fm x y s key)
    then show ?case
      using nextLine_shorter [of ps s y] by simp
  next
    case (4 uq depth ps fm x y s key b emap ya err ps2 fm1 ps3)
    have "length (reader ps2) \<le> length (reader y)"
      using le [OF 4(8)] 4(4,5,6) by auto
    moreover have "reader ps3 = reader ps2"
      using 4(7) [symmetric] by (rule open_brace_case_reader)
    moreover have "length (reader y) < length (reader ps)"
      using 4(1,2) nextLine_shorter [of ps s y] by simp
    ultimately show ?case by simp
  next
    case (2 uq depth ps fm x y s path b fm1 ps2)
    then show ?case
      using nextLine_shorter [of ps s y] flat_case_le [of uq y fm "Include path" fm1 ps2] by simp
  next
    case (5 uq depth ps fm x y s k c b fm1 ps2)
    then show ?case
      using nextLine_shorter [of ps s y] flat_case_le [of uq y fm "HereDoc k c" fm1 ps2] by simp
  next
    case (6 uq depth ps fm x y s k c b fm1 ps2)
    then show ?case
      using nextLine_shorter [of ps s y] flat_case_le [of uq y fm "MultiLine k c" fm1 ps2] by simp
  next
    case (7 uq depth ps fm x y s k c b fm1 ps2)
    then show ?case
      using nextLine_shorter [of ps s y] flat_case_le [of uq y fm "KeyVal k c" fm1 ps2] by simp
  next
    case (8 uq depth ps fm x y s b fm1 ps2)
    then show ?case
      using nextLine_shorter [of ps s y] flat_case_le [of uq y fm Invalid fm1 ps2] by simp
  qed
qed

declare recursive_parse_loop.simps [simp del]

definition recursive_parse ::
    "(string \<Rightarrow> string option) \<Rightarrow> Parser \<Rightarrow> nat \<Rightarrow> failure + (fMap \<times> string option \<times> Parser)" where
  "recursive_parse Unquote ps depth = recursive_parse_loop Unquote depth ps []"

subsection \<open>The whole document\<close>

text \<open>\<^verbatim>\<open>strings.TrimRight(s, "\n")\<close> and \<^verbatim>\<open>getErrors\<close>: one message a line, or no error.\<close>

definition getErrors :: "string list \<Rightarrow> string option" where
  "getErrors es =
     (if length es = 0 then None
      else Some (rev (dropWhile (\<lambda>c. c = lf) (rev (concat (map (\<lambda>e. e @ [lf]) es))))))"

definition parse :: "(string \<Rightarrow> string option) \<Rightarrow> Parser \<Rightarrow> failure + (fMap \<times> string option \<times> Parser)" where
  "parse Unquote ps =
     (case recursive_parse Unquote ps 0 of
        Inl p \<Rightarrow> Inl p
      | Inr (vmap, _, ps1) \<Rightarrow>
          (let ps2 = (if length vmap = 0 \<and> length (include_paths ps1) = 0
                      then appendError ps1 ''Nothing parsed'' 0 else ps1)
           in Inr (vmap, getErrors (errs ps2), ps2)))"

definition allowedOption :: "int \<Rightarrow> bool" where
  "allowedOption option = (option = option AND PARSE_LOWER_CASE)"

definition NewParser :: "int list \<Rightarrow> failure + Parser" where
  "NewParser opts =
     (let ps = \<lparr>reader = [], lineno = 0, options = 0, errs = [], include_paths = []\<rparr>
      in if length opts > 0 then
           (if \<not> allowedOption (hd opts) then Inl (Panic ''Option not allowed'')
            else Inr (ps\<lparr>options := hd opts\<rparr>))
         else Inr ps)"

text \<open>
  \<^verbatim>\<open>ParseStream\<close> on a reader over the bytes \<open>src\<close>: the string map is returned as the list
  of the assignments \<^verbatim>\<open>smap[k] = v.val\<close>, one for each entry of the flat map.
\<close>

definition ParseStream ::
    "(string \<Rightarrow> string option) \<Rightarrow> Parser \<Rightarrow> string \<Rightarrow> failure + ((string \<times> string) list \<times> string option \<times> Parser)" where
  "ParseStream Unquote ps src =
     (case parse Unquote (ps\<lparr>reader := src\<rparr>) of
        Inl p \<Rightarrow> Inl p
      | Inr (vmap, err, ps1) \<Rightarrow>
          Inr (map (\<lambda>(k, vs). (if isOption PARSE_LOWER_CASE (options ps1) then toLower k else k, val vs)) vmap,
               err, ps1))"

definition Parse ::
    "(string \<Rightarrow> string option) \<Rightarrow> string \<Rightarrow> int list \<Rightarrow> failure + ((string \<times> string) list \<times> string option \<times> Parser)" where
  "Parse Unquote src opts =
     (case NewParser opts of
        Inl p \<Rightarrow> Inl p
      | Inr ps \<Rightarrow> ParseStream Unquote ps src)"

text \<open>
  \<^verbatim>\<open>Decoder.decode\<close> parses with a parser made without options and returns the parser's
  error at once; when there is none it walks the destination, which is the parameter
  \<open>walk\<close> here.
\<close>

definition decode ::
    "(string \<Rightarrow> string option) \<Rightarrow> (Decoder \<Rightarrow> 'r) \<Rightarrow> Decoder \<Rightarrow> string \<Rightarrow> failure + (string + 'r)" where
  "decode Unquote walk dc src =
     (case NewParser [] of
        Inl p \<Rightarrow> Inl p
      | Inr ps \<Rightarrow>
          (case parse Unquote (ps\<lparr>reader := src\<rparr>) of
             Inl p \<Rightarrow> Inl p
           | Inr (vmap, Some err, ps1) \<Rightarrow> Inr (Inl err)
           | Inr (vmap, None, ps1) \<Rightarrow> Inr (Inr (walk (dc\<lparr>dec_fieldMap := vmap\<rparr>)))))"

definition Decode ::
    "(string \<Rightarrow> string option) \<Rightarrow> (Decoder \<Rightarrow> 'r) \<Rightarrow> dest \<Rightarrow> string \<Rightarrow> int list \<Rightarrow> failure + (string + 'r)" where
  "Decode Unquote walk x src opts =
     (case NewDecoder x opts of
        Inl p \<Rightarrow> Inl p
      | Inr dc \<Rightarrow> decode Unquote walk dc src)"

text \<open>
  An instance of \<open>Unquote\<close> for the examples: what \<^verbatim>\<open>strconv.Unquote\<close> returns for a
  double-quoted text of printable ASCII bytes without backslash and without inner quote,
  namely the text between the quotes.  Every other text is refused here; the examples do
  not use any.
\<close>

definition plain_byte :: "char \<Rightarrow> bool" where
  "plain_byte c = (32 \<le> byte c \<and> byte c < 127 \<and> c \<noteq> backslash \<and> c \<noteq> qt)"

definition Unquote_plain :: "string \<Rightarrow> string option" where
  "Unquote_plain s =
     (if length s \<ge> 2 \<and> hd s = qt \<and> last s = qt \<and> list_all plain_byte (butlast (tl s))
      then Some (butlast (tl s)) else None)"


section \<open>The encoder\<close>

text \<open>
  The value handed to the encoder, as \<^verbatim>\<open>reflect\<close> shows it.  A struct is the list of its
  fields in the order of declaration; a map is \<^verbatim>\<open>nil\<close> (\<open>None\<close>) or its entries, one for a
  key.  A float and a \<^verbatim>\<open>time.Time\<close> are given by the two things the encoder asks of them:
  whether the value is the zero value of its type, and its text (under \<^verbatim>\<open>%v\<close> for a float,
  in the format \<^verbatim>\<open>encodeTime\<close> picks for a time).  \<open>GOther\<close> is a value of any other kind,
  with the name of the kind and what \<^verbatim>\<open>isZeroStruct\<close> finds for it.
\<close>

datatype gvalue =
    GString string
  | GBool bool
  | GInt int
  | GUint nat
  | GFloat bool string
  | GTime bool string
  | GStruct "(string \<times> gvalue) list"
  | GMap "(string \<times> gvalue) list option"
  | GOther string bool

record Encoder =
  writer :: string
  previous_key :: string
  enc_options :: int
  enc_errs :: "string list"

definition isPublic :: "string \<Rightarrow> bool" where
  "isPublic s = isUpper (hd s)"

fun isZeroStruct :: "gvalue \<Rightarrow> bool"
  and isZeroFields :: "(string \<times> gvalue) list \<Rightarrow> bool" where
  "isZeroStruct (GString s) = (s = [])"
| "isZeroStruct (GBool b) = (\<not> b)"
| "isZeroStruct (GInt i) = (i = 0)"
| "isZeroStruct (GUint n) = (n = 0)"
| "isZeroStruct (GFloat z txt) = z"
| "isZeroStruct (GTime z txt) = z"
| "isZeroStruct (GStruct fs) = isZeroFields fs"
| "isZeroStruct (GMap m) = (m = None)"
| "isZeroStruct (GOther k z) = z"
| "isZeroFields [] = True"
| "isZeroFields (f # fs) =
     ((if isPublic (fst f) then isZeroStruct (snd f) else True) \<and> isZeroFields fs)"

definition setKeyCase :: "int \<Rightarrow> string \<Rightarrow> string" where
  "setKeyCase option k0 =
     (let k1 = (if isOption ALLOW_SNAKE_CASE option \<or> isOption ENCODE_SNAKE_CASE option
                then toSnakeCase k0 else k0)
      in if isOption IGNORE_CASE option \<or> isOption ENCODE_LOWER_CASE option
         then toLower k1 else k1)"

text \<open>
  \<^verbatim>\<open>write\<close> is \<open>write_out\<close> here.  The writer is a buffer: writing appends and does not fail.
\<close>

definition write_out :: "Encoder \<Rightarrow> nat \<Rightarrow> string \<Rightarrow> Encoder" where
  "write_out en depth s = en\<lparr>writer := writer en @ concat (replicate (depth - 1) ''  '') @ s\<rparr>"

definition write_kv :: "Encoder \<Rightarrow> nat \<Rightarrow> string \<Rightarrow> string \<Rightarrow> Encoder" where
  "write_kv en depth key text =
     write_out en depth (setKeyCase (enc_options en) key @ '' = '' @ text @ [lf])"

definition appendErr :: "Encoder \<Rightarrow> string \<Rightarrow> Encoder" where
  "appendErr en msg = en\<lparr>enc_errs := enc_errs en @ [msg]\<rparr>"

text \<open>
  \<^verbatim>\<open>encodeString\<close>.  The text of a string under its key, which \<^verbatim>\<open>quote\<close>, \<^verbatim>\<open>encodeMultiline\<close>
  or \<^verbatim>\<open>output_heredoc\<close> compute with \<^verbatim>\<open>strconv.QuoteToASCII\<close> and the clock, is the parameter
  \<open>string_text\<close>.
\<close>

definition encodeString ::
    "(string \<Rightarrow> string \<Rightarrow> string) \<Rightarrow> Encoder \<Rightarrow> string \<Rightarrow> nat \<Rightarrow> string \<Rightarrow> bool \<times> Encoder" where
  "encodeString string_text en str0 depth parent_key =
     (let str = string_text parent_key str0
      in if str = [] then
           (if isOption ENCODE_ZERO_VALUES (enc_options en)
            then (True, write_kv en depth parent_key [qt, qt])
            else (True, en))
         else (True, write_kv en depth parent_key str))"

definition encodeScalar ::
    "(string \<Rightarrow> string \<Rightarrow> string) \<Rightarrow> Encoder \<Rightarrow> gvalue \<Rightarrow> nat \<Rightarrow> string \<Rightarrow> bool \<times> Encoder" where
  "encodeScalar string_text en v1 depth parent_key =
     (let zeros = isOption ENCODE_ZERO_VALUES (enc_options en)
      in case v1 of
           GString str \<Rightarrow> encodeString string_text en str depth parent_key
         | GBool b \<Rightarrow>
             if \<not> zeros \<and> \<not> b then (True, en)
             else (True, write_kv en depth parent_key (if b then ''True'' else ''False''))
         | GInt i \<Rightarrow>
             if \<not> zeros \<and> i = 0 then (True, en)
             else (True, write_kv en depth parent_key (itoa i))
         | GUint n \<Rightarrow>
             if \<not> zeros \<and> n = 0 then (True, en)
             else (True, write_kv en depth parent_key (itoa (int n)))
         | GFloat z txt \<Rightarrow>
             if \<not> zeros \<and> z then (True, en)
             else (True, write_kv en depth parent_key txt)
         | _ \<Rightarrow> (False, en))"

definition encodeTime :: "Encoder \<Rightarrow> string \<Rightarrow> nat \<Rightarrow> string \<Rightarrow> bool \<times> Encoder" where
  "encodeTime en dt depth parent_key = (True, write_kv en depth parent_key dt)"

text \<open>\<^verbatim>\<open>sort.Strings\<close> on the keys: the entries in ascending order of their keys, byte by byte.\<close>

fun str_le :: "string \<Rightarrow> string \<Rightarrow> bool" where
  "str_le [] t = True"
| "str_le (a # s) [] = False"
| "str_le (a # s) (b # t) = (byte a < byte b \<or> (a = b \<and> str_le s t))"

fun insert_entry :: "string \<times> 'a \<Rightarrow> (string \<times> 'a) list \<Rightarrow> (string \<times> 'a) list" where
  "insert_entry e [] = [e]"
| "insert_entry e (x # xs) = (if str_le (fst e) (fst x) then e # x # xs else x # insert_entry e xs)"

definition sorted_entries :: "(string \<times> 'a) list \<Rightarrow> (string \<times> 'a) list" where
  "sorted_entries kvs = foldr insert_entry kvs []"

lemma size_list_insert_entry [simp]:
  "size_list f (insert_entry e xs) = Suc (f e + size_list f xs)"
  by (induction xs) auto

lemma size_list_sorted_entries [simp]:
  "size_list f (sorted_entries kvs) = size_list f kvs"
  by (induction kvs) (auto simp: sorted_entries_def)

text \<open>
  \<^verbatim>\<open>encodeTraverseStruct\<close>, \<^verbatim>\<open>encodeStruct\<close> and \<^verbatim>\<open>encodeMap\<close>.  The two loops carry the locals
  \<^verbatim>\<open>last_parent\<close> and \<^verbatim>\<open>open__brace\<close>; \<open>zero\<close> is \<^verbatim>\<open>isZeroStruct(v1)\<close> of the container the loop
  runs over.
\<close>

function encodeTraverseStruct ::
    "(string \<Rightarrow> string \<Rightarrow> string) \<Rightarrow> Encoder \<Rightarrow> gvalue \<Rightarrow> nat \<Rightarrow> string \<Rightarrow> bool \<times> Encoder"
  and encodeStruct_loop ::
    "(string \<Rightarrow> string \<Rightarrow> string) \<Rightarrow> Encoder \<Rightarrow> bool \<Rightarrow> (string \<times> gvalue) list \<Rightarrow> nat \<Rightarrow> string \<Rightarrow>
     string \<Rightarrow> bool \<Rightarrow> bool \<times> Encoder"
  and encodeMap_loop ::
    "(string \<Rightarrow> string \<Rightarrow> string) \<Rightarrow> Encoder \<Rightarrow> bool \<Rightarrow> (string \<times> gvalue) list \<Rightarrow> nat \<Rightarrow> string \<Rightarrow>
     string \<Rightarrow> bool \<Rightarrow> bool \<times> Encoder" where
  "encodeTraverseStruct st en v1 depth parent_key =
     (case v1 of
        GMap m \<Rightarrow>
          (case encodeMap_loop st en (isZeroStruct v1)
                  (sorted_entries (case m of None \<Rightarrow> [] | Some kvs \<Rightarrow> kvs))
                  depth parent_key [] False of
             (open__brace, en1) \<Rightarrow>
               (True, if open__brace \<and> parent_key \<noteq> [] then write_out en1 depth (''}'' @ [lf]) else en1))
      | GStruct fs \<Rightarrow>
          (case encodeStruct_loop st en (isZeroStruct v1) fs depth parent_key [] False of
             (open__brace, en1) \<Rightarrow>
               (True, if open__brace \<and> parent_key \<noteq> [] then write_out en1 depth (''}'' @ [lf]) else en1))
      | GTime z dt \<Rightarrow> encodeTime en dt depth parent_key
      | GOther k z \<Rightarrow> (False, appendErr en (''Cannot encode type ('' @ k @ '')''))
      | _ \<Rightarrow> (True, snd (encodeScalar st en v1 depth parent_key)))"
| "encodeStruct_loop st en zero [] depth parent_key last_parent open__brace = (open__brace, en)"
| "encodeStruct_loop st en zero (f # fs) depth parent_key last_parent open__brace =
     (if \<not> isPublic (fst f)
      then encodeStruct_loop st en zero fs depth parent_key last_parent open__brace
      else if parent_key \<noteq> [] \<and> \<not> isOption ENCODE_ZERO_VALUES (enc_options en) \<and> zero
      then encodeStruct_loop st en zero fs depth parent_key last_parent open__brace
      else if parent_key \<noteq> [] \<and> parent_key \<noteq> previous_key en \<and> last_parent \<noteq> parent_key
      then encodeStruct_loop st
             (snd (encodeTraverseStruct st
                     (write_kv (en\<lparr>previous_key := parent_key\<rparr>) depth parent_key ''{'')
                     (snd f) (depth + 1) (fst f)))
             zero fs depth parent_key parent_key True
      else encodeStruct_loop st (snd (encodeTraverseStruct st en (snd f) (depth + 1) (fst f)))
             zero fs depth parent_key last_parent open__brace)"
| "encodeMap_loop st en zero [] depth parent_key last_parent open__brace = (open__brace, en)"
| "encodeMap_loop st en zero (e # entries) depth parent_key last_parent open__brace =
     (if \<not> (isOption ENCODE_ZERO_VALUES (enc_options en) \<and> zero) then
        (if parent_key \<noteq> previous_key en \<and> last_parent \<noteq> parent_key
         then encodeMap_loop st
                (snd (encodeTraverseStruct st
                        (write_kv (en\<lparr>previous_key := parent_key\<rparr>) depth parent_key ''{'')
                        (snd e) (depth + 1) (fst e)))
                zero entries depth parent_key parent_key True
         else encodeMap_loop st (snd (encodeTraverseStruct st en (snd e) (depth + 1) (fst e)))
                zero entries depth parent_key last_parent open__brace)
      else encodeMap_loop st en zero entries depth parent_key last_parent open__brace)"
  by pat_completeness auto
termination
  by (relation "measure (\<lambda>x. case x of
          Inl (st, en, v1, depth, key) \<Rightarrow> 2 * size v1 + 1
        | Inr (Inl (st, en, zero, fs, rest)) \<Rightarrow> 2 * size_list (size_prod (\<lambda>x. 0) size) fs
        | Inr (Inr (st, en, zero, entries, rest)) \<Rightarrow> 2 * size_list (size_prod (\<lambda>x. 0) size) entries)")
     (auto split: option.splits)


declare encodeTraverseStruct.simps [simp del]

definition enc_allowedOption :: "int \<Rightarrow> bool" where
  "enc_allowedOption option =
     (option = option AND (ENCODE_ZERO_VALUES OR ENCODE_LOWER_CASE OR ENCODE_SNAKE_CASE OR OVERWRITE_FILE))"

text \<open>
  \<^verbatim>\<open>NewEncoder\<close> takes a struct, a pointer to a struct (given here as the struct) or a map.
\<close>

definition NewEncoder :: "gvalue \<Rightarrow> int list \<Rightarrow> failure + Encoder" where
  "NewEncoder x opts =
     (let en = \<lparr>writer = [], previous_key = [], enc_options = 0, enc_errs = []\<rparr>;
          accepted = (case x of GStruct fs \<Rightarrow> True | GTime z dt \<Rightarrow> True | GMap m \<Rightarrow> True
                      | _ \<Rightarrow> False)
      in if \<not> accepted then Inl (Panic ''Expecting a struct or a map'')
         else if length opts > 0 then
           (if \<not> enc_allowedOption (hd opts) then Inl (Panic ''Option not allowed'')
            else Inr (en\<lparr>enc_options := hd opts\<rparr>))
         else Inr en)"

definition Encode ::
    "(string \<Rightarrow> string \<Rightarrow> string) \<Rightarrow> gvalue \<Rightarrow> int list \<Rightarrow> failure + (string \<times> string option)" where
  "Encode string_text x opts =
     (case NewEncoder x opts of
        Inl p \<Rightarrow> Inl p
      | Inr en \<Rightarrow>
          (case encodeTraverseStruct string_text en x 0 [] of
             (_, en1) \<Rightarrow> Inr (writer en1, getErrors (enc_errs en1))))"

section \<open>Properties\<close>

subsection \<open>Integer coercion\<close>

lemma zeros_eval:
  "replicate 3 x = [x, x, x]"
  "replicate 6 x = [x, x, x, x, x, x]"
  "replicate 9 x = [x, x, x, x, x, x, x, x, x]"
  "replicate 12 x = [x, x, x, x, x, x, x, x, x, x, x, x]"
  "replicate 15 x = [x, x, x, x, x, x, x, x, x, x, x, x, x, x, x]"
  "replicate 18 x = [x, x, x, x, x, x, x, x, x, x, x, x, x, x, x, x, x, x]"
  by (simp_all add: eval_nat_numeral)

lemma iFix_long:
  assumes "2 \<le> length s0" "remove_commas s0 \<noteq> []"
  shows "iFix s0 = Inr (zero_pad_spec s0)"
proof -
  let ?s = "remove_commas s0"
  have n: "nat (int (length ?s) - 1) = length ?s - 1" by simp
  have c: "?s ! (length ?s - 1) = last ?s" using assms by (simp add: last_conv_nth)
  have p: "take (length ?s - 1) ?s = butlast ?s" by (simp add: butlast_conv_take)
  have nn: "\<not> int (length ?s) - 1 < 0" using assms by (cases ?s) auto
  show ?thesis unfolding iFix_def zero_pad_spec_def Let_def n c p using assms nn
    by (simp add: magnitude_zeros_def zeros_eval)
qed

lemma ParseInt_range: "ParseInt s = Inr n \<Longrightarrow> - (2 ^ 63) \<le> n \<and> n < 2 ^ 63"
  unfolding ParseInt_def Let_def
  by (simp split: if_splits sum.splits strconv_err.splits)

lemma uint64_pos: "0 \<le> n \<Longrightarrow> n < 2 ^ 63 \<Longrightarrow> uint64 n = n"
  unfolding uint64_def by simp

lemma uint64_neg:
  assumes "- (2 ^ 63) \<le> n" "n < 0"
  shows "uint64 n = n + 2 ^ 64"
proof -
  have "(n + 2 ^ 64) mod 2 ^ 64 = n + 2 ^ 64"
    using assms by (intro mod_pos_pos_trivial) auto
  moreover have "(n + 2 ^ 64) mod 2 ^ 64 = n mod 2 ^ 64"
    by simp
  ultimately show ?thesis
    unfolding uint64_def by simp
qed

lemma set_int_checked:
  assumes "iFix raw = Inr s" "Atoi s = Inr n"
  shows "set_int k raw = (if - (2 ^ (bitSize k - 1)) \<le> n \<and> n < 2 ^ (bitSize k - 1) then Inr n else Inl (Error ''Overflow''))"
  using assms by (auto simp: set_int_def OverflowInt_def)

lemma set_uint_checked:
  assumes "iFix raw = Inr s" "Atoi s = Inr n" "k \<in> {Uint8, Uint16, Uint32}"
  shows "set_uint k raw = (if 0 \<le> n \<and> n < 2 ^ bitSize k then Inr n else Inl (Error ''Overflow''))"
proof -
  have r: "- (2 ^ 63) \<le> n \<and> n < 2 ^ 63"
    using assms(2) ParseInt_range by (simp add: Atoi_def)
  have b: "bitSize k = 8 \<or> bitSize k = 16 \<or> bitSize k = 32"
    using assms(3) by (auto simp: bitSize_def)
  show ?thesis
  proof (cases "n < 0")
    case True
    then have u: "uint64 n = n + 2 ^ 64" using r uint64_neg by simp
    have "(2::int) ^ bitSize k \<le> 2 ^ 32" using b by auto
    then have "OverflowUint k (uint64 n)" using r u by (simp add: OverflowUint_def)
    then show ?thesis using assms(1,2) True by (simp add: set_uint_def)
  next
    case False
    then have "uint64 n = n" using r uint64_pos by simp
    then show ?thesis using assms(1,2) False by (auto simp: set_uint_def OverflowUint_def)
  qed
qed

lemmas int_eval = set_int_def set_uint_def set_int64_def iFix_def remove_commas_def Atoi_def ParseInt_def
  isNumber_def byte_def OverflowInt_def OverflowUint_def bitSize_def uint64_def

text \<open>
  Counterexample to C3 as stated: the rule "commas removed, a final magnitude letter
  replaced by its zeros" would turn the one-letter text \<^verbatim>\<open>K\<close> into \<^verbatim>\<open>000\<close>, which reads as
  \<open>0\<close>; \<^verbatim>\<open>iFix\<close> returns a text shorter than two bytes as it is, and the parser refuses it.
\<close>

theorem iFix_single_letter_counterexample:
  "iFix ''K'' = Inr ''K'' \<and> zero_pad_spec ''K'' = ''000'' \<and>
   set_int64 ''K'' = Inl (NumError ''K'' ErrSyntax) \<and> ParseInt (zero_pad_spec ''K'') = Inr 0"
  by (simp add: int_eval zero_pad_spec_def magnitude_zeros_def zeros_eval)

text \<open>
  C3, amended.  For a text of at least two bytes that does not consist of commas only,
  \<^verbatim>\<open>iFix\<close> removes the grouping commas and replaces a final \<^verbatim>\<open>K\<close>, \<^verbatim>\<open>M\<close>, \<^verbatim>\<open>G\<close>, \<^verbatim>\<open>T\<close>,
  \<^verbatim>\<open>P\<close> or \<^verbatim>\<open>E\<close> by 3, 6, 9, 12, 15 or 18 zero digits, and each of the four integer setters
  parses that text in base 10; so \<^verbatim>\<open>1K\<close> decodes to 1000 and \<^verbatim>\<open>2,048M\<close> to 2048000000.  A text
  shorter than two bytes is parsed as it is.
\<close>

theorem iFix_magnitude_suffix:
  "(length s < 2 \<longrightarrow> iFix s = Inr s) \<and>
   (2 \<le> length s \<and> remove_commas s \<noteq> [] \<longrightarrow>
      iFix s = Inr (zero_pad_spec s) \<and>
      set_int k s = (case Atoi (zero_pad_spec s) of
                       Inl e \<Rightarrow> Inl e
                     | Inr n \<Rightarrow> if OverflowInt k n then Inl (Error ''Overflow'') else Inr n) \<and>
      set_uint k s = (case Atoi (zero_pad_spec s) of
                       Inl e \<Rightarrow> Inl e
                     | Inr n \<Rightarrow> if OverflowUint k (uint64 n) then Inl (Error ''Overflow'')
                                else Inr (uint64 n)) \<and>
      set_int64 s = ParseInt (zero_pad_spec s) \<and>
      set_uint64 s = (case ParseUint (zero_pad_spec s) of Inl e \<Rightarrow> Inl e | Inr n \<Rightarrow> Inr (int n))) \<and>
   set_int Int32 ''1K'' = Inr 1000 \<and> set_int64 ''1K'' = Inr 1000 \<and>
   set_int Int32 ''2,048M'' = Inr 2048000000 \<and> set_int64 ''2,048M'' = Inr 2048000000"
proof -
  have short: "length s < 2 \<longrightarrow> iFix s = Inr s"
    by (simp add: iFix_def)
  have long: "2 \<le> length s \<and> remove_commas s \<noteq> [] \<longrightarrow> iFix s = Inr (zero_pad_spec s)"
    using iFix_long by blast
  have ex1: "set_int Int32 ''1K'' = Inr 1000" by (simp add: int_eval)
  have ex2: "set_int64 ''1K'' = Inr 1000" by (simp add: int_eval)
  have ex3: "set_int Int32 ''2,048M'' = Inr 2048000000" by (simp add: int_eval)
  have ex4: "set_int64 ''2,048M'' = Inr 2048000000" by (simp add: int_eval)
  show ?thesis
    using short long ex1 ex2 ex3 ex4
    by (simp add: set_int_def set_uint_def set_int64_def set_uint64_def)
qed

theorem iFix_magnitude_suffix_witness:
  "2 \<le> length ''2,048M'' \<and> remove_commas ''2,048M'' \<noteq> [] \<and>
   iFix ''2,048M'' = Inr ''2048000000'' \<and> length ''7'' < 2 \<and> iFix ''7'' = Inr ''7''"
  using iFix_magnitude_suffix [of "''2,048M''" Int32] iFix_magnitude_suffix [of "''7''" Int32]
  by (simp add: remove_commas_def zero_pad_spec_def magnitude_zeros_def zeros_eval)

text \<open>
  C8.  Into a destination of 8, 16 or 32 bits, signed or unsigned, once the abbreviation is
  expanded and the text parsed, the value is checked against the range of the destination:
  it is stored when it is in range, and the coercion fails with \<^verbatim>\<open>Overflow\<close> when it is not.
  \<^verbatim>\<open>128\<close> overflows an 8-bit signed destination, \<^verbatim>\<open>127\<close> is stored.
\<close>

theorem narrow_integer_overflow:
  "(iFix raw = Inr s \<and> Atoi s = Inr n \<longrightarrow>
      (k \<in> {Int8, Int16, Int32} \<longrightarrow>
         set_int k raw = (if - (2 ^ (bitSize k - 1)) \<le> n \<and> n < 2 ^ (bitSize k - 1)
                          then Inr n else Inl (Error ''Overflow''))) \<and>
      (k \<in> {Uint8, Uint16, Uint32} \<longrightarrow>
         set_uint k raw = (if 0 \<le> n \<and> n < 2 ^ bitSize k
                           then Inr n else Inl (Error ''Overflow'')))) \<and>
   bitSize Int8 = 8 \<and> bitSize Int16 = 16 \<and> bitSize Int32 = 32 \<and>
   bitSize Uint8 = 8 \<and> bitSize Uint16 = 16 \<and> bitSize Uint32 = 32 \<and>
   set_int Int8 ''128'' = Inl (Error ''Overflow'') \<and> set_int Int8 ''127'' = Inr 127"
proof -
  have ex1: "set_int Int8 ''128'' = Inl (Error ''Overflow'')" by (simp add: int_eval)
  have ex2: "set_int Int8 ''127'' = Inr 127" by (simp add: int_eval)
  show ?thesis
    using set_int_checked [of raw s n k] set_uint_checked [of raw s n k] ex1 ex2
    by (simp add: bitSize_def)
qed

theorem narrow_integer_overflow_witness:
  "iFix ''1K'' = Inr ''1000'' \<and> Atoi ''1000'' = Inr 1000 \<and> Int8 \<in> {Int8, Int16, Int32} \<and>
   set_int Int8 ''1K'' = Inl (Error ''Overflow'') \<and>
   iFix ''255'' = Inr ''255'' \<and> Atoi ''255'' = Inr 255 \<and> Uint8 \<in> {Uint8, Uint16, Uint32} \<and>
   set_uint Uint8 ''255'' = Inr 255"
  using narrow_integer_overflow [of "''1K''" "''1000''" 1000 Int8]
        narrow_integer_overflow [of "''255''" "''255''" 255 Uint8]
  by (simp add: iFix_def remove_commas_def Atoi_def ParseInt_def isNumber_def byte_def bitSize_def Let_def)

end
